theory Spec2Isabelle
  imports Main
begin

section \<open>Companion URL controller: data model\<close>

text \<open>
  The controller \<^verbatim>\<open>server/controllers/url.js\<close> exports two express handlers,
  \<^verbatim>\<open>meta\<close> and \<^verbatim>\<open>get\<close>, built on \<^verbatim>\<open>validateURL\<close> and
  \<^verbatim>\<open>downloadURL\<close>. The handlers talk to collaborators that live outside the file:
  the \<^verbatim>\<open>validator\<close> package, \<^verbatim>\<open>getURLMeta\<close>, the \<^verbatim>\<open>Uploader\<close> class, Node's
  \<^verbatim>\<open>URL\<close> parser and the \<^verbatim>\<open>request\<close> transport. They are parameters of the model;
  what a handler does to the outside world is returned as the list of its actions, in
  program order.
\<close>

datatype json = JNull | JNum nat | JStr string | JObj "(string \<times> json) list"

text \<open>A JavaScript \<^verbatim>\<open>Error\<close>: its message and the optional \<^verbatim>\<open>status\<close> property.\<close>

record js_error =
  err_message :: string
  err_status :: "nat option"

text \<open>The options object handed to \<^verbatim>\<open>validator.isURL\<close>.\<close>

record url_opts =
  protocols :: "string list"
  require_protocol :: bool
  require_tld :: bool

text \<open>The result of \<^verbatim>\<open>getURLMeta\<close>: content type and size, either of which may be absent.\<close>

record url_meta =
  meta_type :: "string option"
  meta_size :: "nat option"

text \<open>What \<^verbatim>\<open>uploader.getResponse()\<close> returns, and what \<^verbatim>\<open>res.status(s).json(b)\<close> sends.\<close>

record http_response =
  resp_status :: nat
  resp_body :: json

text \<open>
  A field of a parsed JSON body: missing (\<^verbatim>\<open>undefined\<close>), \<^verbatim>\<open>null\<close>, a boolean, a number, a
  string, or an array or object. Only the truthiness of a number matters here, so numbers
  are integers.
\<close>

datatype js_value =
    js_undefined
  | js_null
  | js_boolean bool
  | js_number int
  | js_string string
  | js_object

text \<open>
  The part of the express request the handlers read: \<^verbatim>\<open>req.id\<close>, \<^verbatim>\<open>req.body.url\<close>
  and \<^verbatim>\<open>req.companion.options.debug\<close>.
\<close>

record request =
  req_id :: string
  body_url :: js_value
  debug :: bool

text \<open>An uploader as the import handler sees it right after construction.\<close>

record uploader =
  hasError :: bool
  getResponse :: http_response

text \<open>
  The collaborators. \<open>getURLMeta\<close> returns \<open>Inl err\<close> when its promise rejects;
  \<open>URL_protocol\<close> is \<^verbatim>\<open>(new URL(url)).protocol\<close>, \<open>None\<close> when the constructor throws.
  The uploader records a failed construction in its own state (\<^verbatim>\<open>hasError\<close>), so
  \<open>new_Uploader\<close> always returns an uploader. \<open>validator_isURL\<close> is
  \<^verbatim>\<open>validator.isURL\<close> on strings; \<open>assertString_message\<close> is the text of the
  \<^verbatim>\<open>TypeError\<close> that the validator package throws for a value that is not a string.
\<close>

record collaborators =
  validator_isURL :: "string \<Rightarrow> url_opts \<Rightarrow> bool"
  assertString_message :: "js_value \<Rightarrow> string"
  getURLMeta :: "string \<Rightarrow> bool \<Rightarrow> js_error + url_meta"
  new_Uploader :: "request \<Rightarrow> nat option \<Rightarrow> uploader"
  URL_protocol :: "string \<Rightarrow> string option"

section \<open>validateURL\<close>

definition validURLOpts :: "bool \<Rightarrow> url_opts" where
  "validURLOpts dbg =
     \<lparr>protocols = [''http'', ''https''], require_protocol = True, require_tld = (\<not> dbg)\<rparr>"

text \<open>JavaScript truthiness: \<^verbatim>\<open>!url\<close> holds exactly for the values that are not truthy.\<close>

fun truthy :: "js_value \<Rightarrow> bool" where
  "truthy js_undefined = False"
| "truthy js_null = False"
| "truthy (js_boolean b) = b"
| "truthy (js_number n) = (n \<noteq> 0)"
| "truthy (js_string s) = (s \<noteq> [])"
| "truthy js_object = True"

text \<open>
  \<open>validateURL\<close> returns a boolean or throws: \<^verbatim>\<open>validator.isURL\<close> first asserts that its
  input is a string and throws a \<^verbatim>\<open>TypeError\<close> (an error without \<^verbatim>\<open>status\<close>) for any
  other value.
\<close>

definition validateURL :: "collaborators \<Rightarrow> js_value \<Rightarrow> bool \<Rightarrow> js_error + bool" where
  "validateURL env url dbg =
     (if \<not> truthy url then Inr False
      else
        (case url of
           js_string u \<Rightarrow>
             if \<not> validator_isURL env u (validURLOpts dbg) then Inr False
             else Inr True
         | _ \<Rightarrow> Inl \<lparr>err_message = assertString_message env url, err_status = None\<rparr>))"

section \<open>The URL validator of the specification\<close>

text \<open>
  Modelled from the spec: \<^verbatim>\<open>validator.isURL\<close> is a third-party function whose code is
  not part of the repository. Section 4.1 of the specification describes it: a URL is
  accepted only if its scheme is one of the allowed protocols; with \<open>require_protocol\<close>
  a URL lacking an explicit scheme is invalid; with \<open>require_tld\<close> a hostname without a
  recognizable top-level label is rejected, so that bare hostnames like \<^verbatim>\<open>localhost\<close>
  pass only in debug mode. Section 3 derives from a candidate URL its protocol, its host
  and whether the host is a numeric address or a domain with a top-level label. The
  scheme is what stands before the first \<^verbatim>\<open>://\<close> and is compared without regard to
  letter case; the host is what follows up to the first of \<^verbatim>\<open>/ ? #\<close>, less an optional
  \<^verbatim>\<open>:port\<close>.
\<close>

fun split_first :: "string \<Rightarrow> string \<Rightarrow> (string \<times> string) option" where
  "split_first sep [] = (if sep = [] then Some ([], []) else None)"
| "split_first sep (c # cs) =
     (if take (length sep) (c # cs) = sep then Some ([], drop (length sep) (c # cs))
      else (case split_first sep cs of
              None \<Rightarrow> None
            | Some (a, b) \<Rightarrow> Some (c # a, b)))"

fun split_on :: "char \<Rightarrow> string \<Rightarrow> string list" where
  "split_on d [] = [[]]"
| "split_on d (c # cs) =
     (if c = d then [] # split_on d cs
      else (case split_on d cs of
              [] \<Rightarrow> [[c]]
            | p # ps \<Rightarrow> (c # p) # ps))"

definition is_upper :: "char \<Rightarrow> bool" where
  "is_upper c = (65 \<le> (of_char c :: nat) \<and> (of_char c :: nat) \<le> 90)"

definition is_lower :: "char \<Rightarrow> bool" where
  "is_lower c = (97 \<le> (of_char c :: nat) \<and> (of_char c :: nat) \<le> 122)"

definition is_digit :: "char \<Rightarrow> bool" where
  "is_digit c = (48 \<le> (of_char c :: nat) \<and> (of_char c :: nat) \<le> 57)"

definition toLowerCase :: "string \<Rightarrow> string" where
  "toLowerCase s = map (\<lambda>c. if is_upper c then char_of ((of_char c :: nat) + 32) else c) s"

definition is_label :: "string \<Rightarrow> bool" where
  "is_label s =
     (s \<noteq> [] \<and> list_all (\<lambda>c. is_lower c \<or> is_upper c \<or> is_digit c \<or> c = CHR ''-'') s
      \<and> hd s \<noteq> CHR ''-'' \<and> last s \<noteq> CHR ''-'')"

definition is_tld :: "string \<Rightarrow> bool" where
  "is_tld s = (2 \<le> length s \<and> list_all (\<lambda>c. is_lower c \<or> is_upper c) s)"

definition isFQDN :: "string \<Rightarrow> bool \<Rightarrow> bool" where
  "isFQDN host tld_required =
     (let parts = split_on CHR ''.'' host in
      (if tld_required then 2 \<le> length parts \<and> is_tld (last parts) else True)
      \<and> list_all is_label parts)"

definition is_octet :: "string \<Rightarrow> bool" where
  "is_octet s =
     (s \<noteq> [] \<and> length s \<le> 3 \<and> list_all is_digit s
      \<and> foldl (\<lambda>n c. 10 * n + ((of_char c :: nat) - 48)) 0 s \<le> 255)"

definition isIP4 :: "string \<Rightarrow> bool" where
  "isIP4 host = (let parts = split_on CHR ''.'' host in length parts = 4 \<and> list_all is_octet parts)"

definition is_port :: "string \<Rightarrow> bool" where
  "is_port s =
     (s \<noteq> [] \<and> length s \<le> 5 \<and> list_all is_digit s
      \<and> 0 < foldl (\<lambda>n c. 10 * n + ((of_char c :: nat) - 48)) 0 s
      \<and> foldl (\<lambda>n c. 10 * n + ((of_char c :: nat) - 48)) 0 s \<le> 65535)"

definition isHost :: "string \<Rightarrow> bool \<Rightarrow> bool" where
  "isHost rest tld_required =
     (let authority = takeWhile (\<lambda>c. c \<noteq> CHR ''/'' \<and> c \<noteq> CHR ''?'' \<and> c \<noteq> CHR ''#'') rest in
      case split_first '':'' authority of
        None \<Rightarrow> isIP4 authority \<or> isFQDN authority tld_required
      | Some (host, port) \<Rightarrow> is_port port \<and> (isIP4 host \<or> isFQDN host tld_required))"

text \<open>
  Modelled from the spec: \<^verbatim>\<open>validator.isURL\<close> with the options of section 4.1
  (allowed protocols, required protocol, required top-level label).
\<close>

definition isURL :: "string \<Rightarrow> url_opts \<Rightarrow> bool" where
  "isURL url opts =
     (case split_first ''://'' url of
        None \<Rightarrow> if require_protocol opts then False else isHost url (require_tld opts)
      | Some (protocol, rest) \<Rightarrow>
          if toLowerCase protocol \<in> set (protocols opts) then isHost rest (require_tld opts)
          else False)"

section \<open>The handlers as action traces\<close>

text \<open>
  What a handler does, in program order: log lines, the call of \<^verbatim>\<open>getURLMeta\<close>, the
  construction of the uploader, the registration of a callback with
  \<^verbatim>\<open>uploader.onSocketReady\<close> (the callback is kept as the list of actions its body
  performs when it is invoked), the call of \<^verbatim>\<open>downloadURL\<close> (url, blockLocalIPs, trace
  id) and the HTTP response \<^verbatim>\<open>res.status(s).json(b)\<close>.
\<close>

datatype action =
    logger_debug string string
  | logger_error js_error string string
  | call_getURLMeta string bool
  | construct_Uploader "nat option"
  | onSocketReady "action list"
  | call_downloadURL string bool string
  | respond nat json

definition invalid_request_body :: json where
  "invalid_request_body = JObj [(''error'', JStr ''Invalid request body'')]"

definition failed_to_fetch :: json where
  "failed_to_fetch = JObj [(''message'', JStr ''failed to fetch URL metadata'')]"

text \<open>\<^verbatim>\<open>err.status || 500\<close>: a missing status and the falsy status 0 both give 500.\<close>

definition status_or_500 :: "js_error \<Rightarrow> nat" where
  "status_or_500 err =
     (case err_status err of
        None \<Rightarrow> 500
      | Some s \<Rightarrow> if s = 0 then 500 else s)"

text \<open>
  \<^verbatim>\<open>res.json(urlMeta)\<close>: an undefined \<^verbatim>\<open>type\<close> is dropped from the JSON text, a size that
  is not a number is sent as \<^verbatim>\<open>null\<close>.
\<close>

definition json_of_meta :: "url_meta \<Rightarrow> json" where
  "json_of_meta m =
     JObj ((case meta_type m of None \<Rightarrow> [] | Some t \<Rightarrow> [(''type'', JStr t)])
           @ [(''size'', case meta_size m of None \<Rightarrow> JNull | Some n \<Rightarrow> JNum n)])"

text \<open>
  \<^verbatim>\<open>req.body.url\<close> as a string; it is read only after \<open>validateURL\<close> has accepted it,
  which happens for strings only.
\<close>

definition req_url :: "request \<Rightarrow> string" where
  "req_url req = (case body_url req of js_string u \<Rightarrow> u | _ \<Rightarrow> [])"

text \<open>
  Both handlers run inside \<^verbatim>\<open>try\<close>: whatever is thrown, by \<open>validateURL\<close> or by
  \<open>getURLMeta\<close>, reaches the \<^verbatim>\<open>catch\<close> block, which logs the error and responds with
  \<^verbatim>\<open>err.status || 500\<close>.
\<close>

definition meta :: "collaborators \<Rightarrow> request \<Rightarrow> action list" where
  "meta env req =
     logger_debug ''URL file import handler running'' (req_id req) #
     (case validateURL env (body_url req) (debug req) of
        Inl err \<Rightarrow>
          [logger_error err ''controller.url.meta.error'' (req_id req),
           respond (status_or_500 err) failed_to_fetch]
      | Inr valid \<Rightarrow>
          if \<not> valid then
            [logger_debug ''Invalid request body detected. Exiting url meta handler.'' (req_id req),
             respond 400 invalid_request_body]
          else
            call_getURLMeta (req_url req) (\<not> debug req) #
            (case getURLMeta env (req_url req) (\<not> debug req) of
               Inl err \<Rightarrow>
                 [logger_error err ''controller.url.meta.error'' (req_id req),
                  respond (status_or_500 err) failed_to_fetch]
             | Inr urlMeta \<Rightarrow> [respond 200 (json_of_meta urlMeta)]))"

definition get :: "collaborators \<Rightarrow> request \<Rightarrow> action list" where
  "get env req =
     logger_debug ''URL file import handler running'' (req_id req) #
     (case validateURL env (body_url req) (debug req) of
        Inl err \<Rightarrow>
          [logger_error err ''controller.url.get.error'' (req_id req),
           respond (status_or_500 err) failed_to_fetch]
      | Inr valid \<Rightarrow>
          if \<not> valid then
            [logger_debug ''Invalid request body detected. Exiting url import handler.''
               (req_id req),
             respond 400 invalid_request_body]
          else
            call_getURLMeta (req_url req) (\<not> debug req) #
            (case getURLMeta env (req_url req) (\<not> debug req) of
               Inl err \<Rightarrow>
                 [logger_error err ''controller.url.get.error'' (req_id req),
                  respond (status_or_500 err) failed_to_fetch]
             | Inr urlMeta \<Rightarrow>
                 logger_debug ''Instantiating uploader.'' (req_id req) #
                 construct_Uploader (meta_size urlMeta) #
                 (let uploader = new_Uploader env req (meta_size urlMeta) in
                  if hasError uploader then
                    [respond (resp_status (getResponse uploader))
                       (resp_body (getResponse uploader))]
                  else
                    [logger_debug
                       ''Waiting for socket connection before beginning remote download.''
                       (req_id req),
                     onSocketReady
                       [logger_debug ''Socket connection received. Starting remote download.''
                          (req_id req),
                        call_downloadURL (req_url req) (\<not> debug req) (req_id req)],
                     respond (resp_status (getResponse uploader))
                       (resp_body (getResponse uploader))])))"

text \<open>
  The \<^verbatim>\<open>blockLocalIPs\<close> arguments an action passes on, those inside a registered
  callback included.
\<close>

fun block_flags :: "action \<Rightarrow> bool list" where
  "block_flags (call_getURLMeta url blockLocalIPs) = [blockLocalIPs]"
| "block_flags (call_downloadURL url blockLocalIPs traceId) = [blockLocalIPs]"
| "block_flags (onSocketReady callback) = concat (map block_flags callback)"
| "block_flags _ = []"

section \<open>downloadURL\<close>

text \<open>
  The two SSRF helpers of \<^verbatim>\<open>helpers/request\<close> are kept symbolic: each value records the
  arguments the helper was called with.
\<close>

datatype redirect_evaluator = getRedirectEvaluator string bool

datatype agent_class = getProtectedHttpAgent string bool

record request_opts =
  uri :: string
  req_method :: string
  followRedirect :: redirect_evaluator
  agentClass :: agent_class

text \<open>
  Building \<^verbatim>\<open>opts\<close>. \<^verbatim>\<open>new URL(url)\<close> throws a \<^verbatim>\<open>TypeError\<close> on a string it cannot
  parse; then \<^verbatim>\<open>request\<close> is never called.
\<close>

definition download_opts :: "collaborators \<Rightarrow> string \<Rightarrow> bool \<Rightarrow> js_error + request_opts" where
  "download_opts env url blockLocalIPs =
     (case URL_protocol env url of
        None \<Rightarrow> Inl \<lparr>err_message = ''Invalid URL'', err_status = None\<rparr>
      | Some protocol \<Rightarrow>
          Inr \<lparr>uri = url, req_method = ''GET'',
               followRedirect = getRedirectEvaluator url blockLocalIPs,
               agentClass = getProtectedHttpAgent protocol blockLocalIPs\<rparr>)"

text \<open>
  The events the transport raises during one fetch: \<^verbatim>\<open>'response'\<close> with the status code,
  \<^verbatim>\<open>'end'\<close> and \<^verbatim>\<open>'error'\<close> on the request object, and \<^verbatim>\<open>'data'\<close> on the response
  object announced by the latest \<^verbatim>\<open>'response'\<close> event.
\<close>

datatype transport_event =
    ev_response nat
  | ev_data string
  | ev_end
  | ev_error js_error

text \<open>What the handlers of \<open>downloadURL\<close> do: calls of \<^verbatim>\<open>onDataChunk(err, chunk)\<close>
  (\<open>None\<close> is \<^verbatim>\<open>null\<close>) and log lines.\<close>

datatype emission =
    onDataChunk "js_error option" "string option"
  | log_error js_error string string

fun string_of_nat :: "nat \<Rightarrow> string" where
  "string_of_nat n =
     (if n < 10 then [char_of (48 + n)]
      else string_of_nat (n div 10) @ [char_of (48 + n mod 10)])"

declare string_of_nat.simps [simp del]

text \<open>Reading a decimal numeral back.\<close>

definition decimal_value :: "string \<Rightarrow> nat" where
  "decimal_value s = foldl (\<lambda>n c. 10 * n + ((of_char c :: nat) - 48)) 0 s"

definition status_error :: "nat \<Rightarrow> js_error" where
  "status_error statusCode =
     \<lparr>err_message = ''URL server responded with status: '' @ string_of_nat statusCode,
      err_status = None\<rparr>"

text \<open>
  One event. The flag says whether the current response object carries the \<^verbatim>\<open>'data'\<close>
  listener, which is attached only when the status is below 300.
\<close>

fun on_event :: "string \<Rightarrow> bool \<Rightarrow> transport_event \<Rightarrow> bool \<times> emission list" where
  "on_event traceId listening (ev_response statusCode) =
     (if statusCode \<ge> 300 then (False, [onDataChunk (Some (status_error statusCode)) None])
      else (True, []))"
| "on_event traceId listening (ev_data chunk) =
     (listening, if listening then [onDataChunk None (Some chunk)] else [])"
| "on_event traceId listening ev_end = (listening, [onDataChunk None None])"
| "on_event traceId listening (ev_error err) =
     (listening, [log_error err ''controller.url.download.error'' traceId, onDataChunk (Some err) None])"

fun deliver :: "string \<Rightarrow> bool \<Rightarrow> transport_event list \<Rightarrow> emission list" where
  "deliver traceId listening [] = []"
| "deliver traceId listening (e # es) =
     snd (on_event traceId listening e) @ deliver traceId (fst (on_event traceId listening e)) es"

text \<open>The listener flag after a run of events.\<close>

fun listening_after :: "string \<Rightarrow> bool \<Rightarrow> transport_event list \<Rightarrow> bool" where
  "listening_after traceId listening [] = listening"
| "listening_after traceId listening (e # es) =
     listening_after traceId (fst (on_event traceId listening e)) es"

text \<open>A fetch session: the options handed to \<^verbatim>\<open>request\<close> and what the handlers emit
  for the events of the transport.\<close>

definition downloadURL ::
  "collaborators \<Rightarrow> string \<Rightarrow> bool \<Rightarrow> string \<Rightarrow> transport_event list
     \<Rightarrow> js_error + (request_opts \<times> emission list)" where
  "downloadURL env url blockLocalIPs traceId events =
     (case download_opts env url blockLocalIPs of
        Inl err \<Rightarrow> Inl err
      | Inr opts \<Rightarrow> Inr (opts, deliver traceId False events))"

text \<open>Reading a session: the three kinds of callback event.\<close>

fun is_data :: "emission \<Rightarrow> bool" where
  "is_data (onDataChunk None (Some chunk)) = True"
| "is_data _ = False"

fun is_terminal :: "emission \<Rightarrow> bool" where
  "is_terminal (onDataChunk None None) = True"
| "is_terminal (onDataChunk (Some err) chunk) = True"
| "is_terminal _ = False"

fun no_data_after_terminal :: "emission list \<Rightarrow> bool" where
  "no_data_after_terminal [] = True"
| "no_data_after_terminal (c # cs) =
     (if is_terminal c then filter is_data cs = [] \<and> no_data_after_terminal cs
      else no_data_after_terminal cs)"

fun is_response :: "transport_event \<Rightarrow> bool" where
  "is_response (ev_response statusCode) = True"
| "is_response _ = False"

text \<open>
  Reading the transport's side of a session. Three events call for a terminal event:
  \<^verbatim>\<open>'end'\<close>, \<^verbatim>\<open>'error'\<close> and a response with a status of 300 or more.
\<close>

fun raises_terminal :: "transport_event \<Rightarrow> bool" where
  "raises_terminal (ev_response statusCode) = (statusCode \<ge> 300)"
| "raises_terminal (ev_data chunk) = False"
| "raises_terminal ev_end = True"
| "raises_terminal (ev_error err) = True"

text \<open>
  \<open>late_data below300 closed events\<close>: the transport raises \<^verbatim>\<open>'data'\<close> on a response
  whose status is below 300 after it has raised one of the three events above.
  \<open>below300\<close> says whether the latest response had a status below 300, \<open>closed\<close>
  whether one of the three events has been raised.
\<close>

fun late_data :: "bool \<Rightarrow> bool \<Rightarrow> transport_event list \<Rightarrow> bool" where
  "late_data below300 closed [] = False"
| "late_data below300 closed (ev_response statusCode # es) =
     late_data (statusCode < 300) (closed \<or> statusCode \<ge> 300) es"
| "late_data below300 closed (ev_data chunk # es) =
     ((below300 \<and> closed) \<or> late_data below300 closed es)"
| "late_data below300 closed (ev_end # es) = late_data below300 True es"
| "late_data below300 closed (ev_error err # es) = late_data below300 True es"

text \<open>\<open>no_data_after_terminal\<close> for the rest of a session in which a terminal event may
  already have been delivered.\<close>

fun quiet_after :: "bool \<Rightarrow> emission list \<Rightarrow> bool" where
  "quiet_after closed [] = True"
| "quiet_after closed (c # cs) =
     (if is_data c then \<not> closed \<and> quiet_after closed cs
      else quiet_after (closed \<or> is_terminal c) cs)"

section \<open>The readiness hook of the uploader\<close>

text \<open>
  Modelled from the spec: \<^verbatim>\<open>Uploader.onSocketReady\<close> is not part of the controller.
  Section 6 of the specification asks the downstream consumer for a readiness
  notification hook invoked exactly once when it is prepared to accept bytes. The world
  keeps, per import request, the callback waiting on the hook; a readiness signal runs
  the waiting callback and removes it. The history records what was performed for which
  request, and the readiness signals.
\<close>

datatype signal = import_request request | socket_ready string

datatype occurrence = performed string action | ready string

record world =
  hooks :: "string \<Rightarrow> action list option"
  history :: "occurrence list"

fun perform :: "string \<Rightarrow> world \<Rightarrow> action \<Rightarrow> world" where
  "perform rid w (onSocketReady callback) =
     w\<lparr>hooks := (hooks w)(rid \<mapsto> callback),
       history := history w @ [performed rid (onSocketReady callback)]\<rparr>"
| "perform rid w a = w\<lparr>history := history w @ [performed rid a]\<rparr>"

text \<open>
  Modelled from the spec: the one-shot readiness hook of the uploader. A signal that finds
  no waiting callback is lost; a waiting callback runs once.
\<close>

fun step :: "collaborators \<Rightarrow> world \<Rightarrow> signal \<Rightarrow> world" where
  "step env w (import_request req) = foldl (perform (req_id req)) w (get env req)"
| "step env w (socket_ready rid) =
     (case hooks w rid of
        None \<Rightarrow> w\<lparr>history := history w @ [ready rid]\<rparr>
      | Some callback \<Rightarrow>
          foldl (perform rid)
            (w\<lparr>hooks := (hooks w)(rid := None), history := history w @ [ready rid]\<rparr>) callback)"

definition run :: "collaborators \<Rightarrow> signal list \<Rightarrow> world" where
  "run env signals = foldl (step env) \<lparr>hooks = Map.empty, history = []\<rparr> signals"

text \<open>
  The invariant of the world: a waiting callback was registered by an \<^verbatim>\<open>onSocketReady\<close>
  call recorded in the history, and every recorded call of \<^verbatim>\<open>downloadURL\<close> comes after a
  readiness signal of its request, itself after such a registration.
\<close>

definition registered_before :: "world \<Rightarrow> bool" where
  "registered_before w \<longleftrightarrow>
     (\<forall>rid cb. hooks w rid = Some cb \<longrightarrow> performed rid (onSocketReady cb) \<in> set (history w))"

definition downloads_released :: "occurrence list \<Rightarrow> bool" where
  "downloads_released h \<longleftrightarrow>
     (\<forall>pre rid url b tid post. h = pre @ performed rid (call_downloadURL url b tid) # post \<longrightarrow>
        (\<exists>before callback after. pre = before @ ready rid # after
           \<and> performed rid (onSocketReady callback) \<in> set before))"

section \<open>A concrete deployment\<close>

text \<open>
  Collaborators for evaluating the model: the validator of the specification, a fixed
  text for the validator's \<^verbatim>\<open>TypeError\<close>, a metadata
  probe that answers for \<^verbatim>\<open>example.com\<close> and fails with status 404 elsewhere, an
  uploader that reports a pre-flight error when the size is unknown, and a URL parser that
  returns the lower-case scheme followed by a colon.
\<close>

definition example_env :: collaborators where
  "example_env =
     \<lparr>validator_isURL = isURL,
      assertString_message = (\<lambda>v. ''Expected string but received another type.''),
      getURLMeta = (\<lambda>url blockLocalIPs.
         if url = ''http://example.com/a.png''
         then Inr \<lparr>meta_type = Some ''image/png'', meta_size = Some 1024\<rparr>
         else if url = ''http://example.com/stream''
         then Inr \<lparr>meta_type = None, meta_size = None\<rparr>
         else Inl \<lparr>err_message = ''URL server responded with status: 404'',
                   err_status = Some 404\<rparr>),
      new_Uploader = (\<lambda>req size.
         case size of
           None \<Rightarrow> \<lparr>hasError = True,
                     getResponse = \<lparr>resp_status = 400,
                       resp_body = JObj [(''message'', JStr ''unknown size'')]\<rparr>\<rparr>
         | Some n \<Rightarrow> \<lparr>hasError = False,
                       getResponse = \<lparr>resp_status = 200,
                         resp_body = JObj [(''token'', JStr ''t1'')]\<rparr>\<rparr>),
      URL_protocol = (\<lambda>url.
         case split_first ''://'' url of
           None \<Rightarrow> None
         | Some (scheme, rest) \<Rightarrow> Some (toLowerCase scheme @ '':''))\<rparr>"

definition example_request :: "string \<Rightarrow> bool \<Rightarrow> request" where
  "example_request url dbg = \<lparr>req_id = ''r1'', body_url = js_string url, debug = dbg\<rparr>"

section \<open>Properties of the validator\<close>

lemma split_first_Some_decomp:
  "split_first sep s = Some (a, b) \<Longrightarrow> s = a @ sep @ b"
proof (induction s arbitrary: a b)
  case Nil
  then show ?case by (simp split: if_splits)
next
  case (Cons c cs)
  show ?case
  proof (cases "take (length sep) (c # cs) = sep")
    case True
    with Cons.prems have "a = []" "b = drop (length sep) (c # cs)" by simp_all
    with True show ?thesis by (metis append_Nil append_take_drop_id)
  next
    case False
    with Cons.prems obtain a' where "split_first sep cs = Some (a', b)" "a = c # a'"
      by (auto split: option.splits)
    with Cons.IH show ?thesis by simp
  qed
qed

lemma split_first_None_no_occurrence:
  "split_first sep s = None \<Longrightarrow> s \<noteq> a @ sep @ b"
proof (induction s arbitrary: a)
  case Nil
  then show ?case by (simp split: if_splits)
next
  case (Cons c cs)
  from Cons.prems have ntake: "take (length sep) (c # cs) \<noteq> sep"
    and rest: "split_first sep cs = None"
    by (auto split: if_splits option.splits)
  show ?case
  proof (cases a)
    case Nil
    with ntake show ?thesis by auto
  next
    case (Cons x xs)
    with Cons.IH [OF rest, of xs] show ?thesis by auto
  qed
qed

lemma split_first_minimal:
  "split_first sep s = Some (a, b) \<Longrightarrow> s = a' @ sep @ b' \<Longrightarrow> length a \<le> length a'"
proof (induction s arbitrary: a a')
  case Nil
  then show ?case by (simp split: if_splits)
next
  case (Cons c cs)
  show ?case
  proof (cases "take (length sep) (c # cs) = sep")
    case True
    with Cons.prems(1) show ?thesis by simp
  next
    case False
    with Cons.prems(1) obtain a0 where a0: "split_first sep cs = Some (a0, b)" "a = c # a0"
      by (auto split: option.splits)
    show ?thesis
    proof (cases a')
      case Nil
      with Cons.prems(2) False show ?thesis by auto
    next
      case (Cons x xs)
      with Cons.prems(2) have "cs = xs @ sep @ b'" by simp
      from Cons.IH [OF a0(1) this] a0(2) Cons show ?thesis by simp
    qed
  qed
qed

lemma split_first_is_first:
  assumes "s = a @ sep @ b" and "\<forall>a' b'. s = a' @ sep @ b' \<longrightarrow> length a \<le> length a'"
  shows "split_first sep s = Some (a, b)"
proof (cases "split_first sep s")
  case None
  with assms(1) split_first_None_no_occurrence [of sep s a b] show ?thesis by simp
next
  case (Some p)
  obtain a0 b0 where p: "p = (a0, b0)" by (cases p)
  with Some have sf: "split_first sep s = Some (a0, b0)" by simp
  then have dec: "s = a0 @ sep @ b0" by (rule split_first_Some_decomp)
  from assms(2) dec have "length a \<le> length a0" by blast
  moreover from split_first_minimal [OF sf assms(1)] have "length a0 \<le> length a" .
  ultimately have "length a = length a0" by simp
  with assms(1) dec have "a = a0 \<and> b = b0" by (metis append_eq_append_conv same_append_eq)
  with sf show ?thesis by simp
qed

lemma isURL_other_scheme:
  assumes "split_first ''://'' url = Some (scheme, rest)"
    and "toLowerCase scheme \<notin> set (protocols opts)"
  shows "\<not> isURL url opts"
  using assms unfolding isURL_def by simp

lemma isURL_no_scheme:
  assumes "\<nexists>a b. url = a @ ''://'' @ b" "require_protocol opts"
  shows "\<not> isURL url opts"
proof -
  have "split_first ''://'' url = None"
  proof (cases "split_first ''://'' url")
    case (Some p)
    then show ?thesis using assms(1) split_first_Some_decomp [of "''://''" url "fst p" "snd p"] by auto
  qed simp
  with assms(2) show ?thesis by (simp add: isURL_def)
qed

lemma validateURL_string:
  "validateURL env (js_string url) dbg = Inr (url \<noteq> [] \<and> validator_isURL env url (validURLOpts dbg))"
  by (simp add: validateURL_def)

text \<open>
  C6. With the validator of the specification, a URL string whose scheme (the text before
  its first \<^verbatim>\<open>://\<close>, compared in lower case) is neither \<^verbatim>\<open>http\<close> nor \<^verbatim>\<open>https\<close>
  is rejected by \<open>validateURL\<close> for both values of the debug flag, and so is a string
  in which no \<^verbatim>\<open>://\<close> occurs: \<open>validURLOpts\<close> always sets \<open>require_protocol\<close>.
  The first occurrence is the one with the shortest text before it.
\<close>

theorem validateURL_rejects_other_schemes:
  "(url = scheme @ ''://'' @ rest
      \<and> (\<forall>a b. url = a @ ''://'' @ b \<longrightarrow> length scheme \<le> length a)
      \<and> toLowerCase scheme \<notin> {''http'', ''https''}
      \<longrightarrow> validateURL (env\<lparr>validator_isURL := isURL\<rparr>) (js_string url) dbg = Inr False)
   \<and> ((\<nexists>a b. url = a @ ''://'' @ b)
      \<longrightarrow> validateURL (env\<lparr>validator_isURL := isURL\<rparr>) (js_string url) dbg = Inr False)"
proof (intro conjI impI)
  assume h: "url = scheme @ ''://'' @ rest
      \<and> (\<forall>a b. url = a @ ''://'' @ b \<longrightarrow> length scheme \<le> length a)
      \<and> toLowerCase scheme \<notin> {''http'', ''https''}"
  then have "split_first ''://'' url = Some (scheme, rest)"
    by (intro split_first_is_first) blast+
  moreover from h have "toLowerCase scheme \<notin> set (protocols (validURLOpts dbg))"
    by (simp add: validURLOpts_def)
  ultimately have "\<not> isURL url (validURLOpts dbg)" by (rule isURL_other_scheme)
  then show "validateURL (env\<lparr>validator_isURL := isURL\<rparr>) (js_string url) dbg = Inr False"
    by (simp add: validateURL_string)
next
  assume "\<nexists>a b. url = a @ ''://'' @ b"
  then have "\<not> isURL url (validURLOpts dbg)"
    by (rule isURL_no_scheme) (simp add: validURLOpts_def)
  then show "validateURL (env\<lparr>validator_isURL := isURL\<rparr>) (js_string url) dbg = Inr False"
    by (simp add: validateURL_string)
qed

lemma first_occurrence:
  "split_first sep s = Some (a, b) \<Longrightarrow>
     s = a @ sep @ b \<and> (\<forall>a' b'. s = a' @ sep @ b' \<longrightarrow> length a \<le> length a')"
  using split_first_Some_decomp split_first_minimal by blast

theorem validateURL_rejects_other_schemes_witness:
  "validateURL (example_env\<lparr>validator_isURL := isURL\<rparr>) (js_string ''ftp://example.com/a.png'') False
     = Inr False
   \<and> validateURL (example_env\<lparr>validator_isURL := isURL\<rparr>) (js_string ''ftp://example.com/a.png'') True
     = Inr False
   \<and> validateURL (example_env\<lparr>validator_isURL := isURL\<rparr>)
       (js_string ''javascript:alert(1)//http://x.com'') True = Inr False
   \<and> validateURL (example_env\<lparr>validator_isURL := isURL\<rparr>)
       (js_string ''example.com:8080/a?next=http://x.com'') True = Inr False
   \<and> validateURL (example_env\<lparr>validator_isURL := isURL\<rparr>) (js_string ''example.com/a.png'') True
     = Inr False"
proof -
  have s1: "split_first ''://'' ''ftp://example.com/a.png'' = Some (''ftp'', ''example.com/a.png'')"
    by simp
  have s2: "split_first ''://'' ''javascript:alert(1)//http://x.com''
      = Some (''javascript:alert(1)//http'', ''x.com'')"
    by simp
  have s3: "split_first ''://'' ''example.com:8080/a?next=http://x.com''
      = Some (''example.com:8080/a?next=http'', ''x.com'')"
    by simp
  have l1: "toLowerCase ''ftp'' \<notin> {''http'', ''https''}"
    by (simp add: toLowerCase_def is_upper_def)
  have l2: "toLowerCase ''javascript:alert(1)//http'' \<notin> {''http'', ''https''}"
    by (simp add: toLowerCase_def is_upper_def)
  have l3: "toLowerCase ''example.com:8080/a?next=http'' \<notin> {''http'', ''https''}"
    by (simp add: toLowerCase_def is_upper_def)
  have "split_first ''://'' ''example.com/a.png'' = None" by simp
  then have h4: "\<nexists>a b. ''example.com/a.png'' = a @ ''://'' @ b"
    using split_first_None_no_occurrence by blast
  have c1: "validateURL (example_env\<lparr>validator_isURL := isURL\<rparr>)
      (js_string ''ftp://example.com/a.png'') dbg = Inr False" for dbg
    using validateURL_rejects_other_schemes
      [of "''ftp://example.com/a.png''" "''ftp''" "''example.com/a.png''" example_env dbg]
      first_occurrence [OF s1] l1 by blast
  have c2: "validateURL (example_env\<lparr>validator_isURL := isURL\<rparr>)
      (js_string ''javascript:alert(1)//http://x.com'') True = Inr False"
    using validateURL_rejects_other_schemes
      [of "''javascript:alert(1)//http://x.com''" "''javascript:alert(1)//http''" "''x.com''"
          example_env True]
      first_occurrence [OF s2] l2 by blast
  have c3: "validateURL (example_env\<lparr>validator_isURL := isURL\<rparr>)
      (js_string ''example.com:8080/a?next=http://x.com'') True = Inr False"
    using validateURL_rejects_other_schemes
      [of "''example.com:8080/a?next=http://x.com''" "''example.com:8080/a?next=http''" "''x.com''"
          example_env True]
      first_occurrence [OF s3] l3 by blast
  have c4: "validateURL (example_env\<lparr>validator_isURL := isURL\<rparr>)
      (js_string ''example.com/a.png'') True = Inr False"
    using validateURL_rejects_other_schemes
      [of "''example.com/a.png''" "[]" "[]" example_env True] h4 by blast
  from c1 c2 c3 c4 show ?thesis by blast
qed

text \<open>
  C7. With the validator of the specification, \<^verbatim>\<open>http://localhost\<close> is rejected when
  debug is off (the TLD requirement is in force) and accepted when debug is on.
\<close>

theorem validateURL_localhost_needs_debug:
  "require_tld (validURLOpts False) \<and> \<not> require_tld (validURLOpts True)
   \<and> validateURL (env\<lparr>validator_isURL := isURL\<rparr>) (js_string ''http://localhost'') False
       = Inr False
   \<and> validateURL (env\<lparr>validator_isURL := isURL\<rparr>) (js_string ''http://localhost'') True
       = Inr True"
proof -
  have "\<not> isURL ''http://localhost'' (validURLOpts False)" by code_simp
  moreover have "isURL ''http://localhost'' (validURLOpts True)" by code_simp
  ultimately show ?thesis by (simp add: validateURL_string validURLOpts_def)
qed

section \<open>Properties of the handlers\<close>

text \<open>
  When \<open>validateURL\<close> returns false, the metadata handler and the import handler each log
  twice and respond 400 with the body \<^verbatim>\<open>{error: 'Invalid request body'}\<close>; nothing else
  is done.
\<close>

lemma rejected_url_responds_400:
  assumes "validateURL env (body_url req) (debug req) = Inr False"
  shows "meta env req =
           [logger_debug ''URL file import handler running'' (req_id req),
            logger_debug ''Invalid request body detected. Exiting url meta handler.'' (req_id req),
            respond 400 (JObj [(''error'', JStr ''Invalid request body'')])]
     \<and> get env req =
           [logger_debug ''URL file import handler running'' (req_id req),
            logger_debug ''Invalid request body detected. Exiting url import handler.'' (req_id req),
            respond 400 (JObj [(''error'', JStr ''Invalid request body'')])]"
  using assms by (simp add: meta_def get_def invalid_request_body_def)

lemma validateURL_throws:
  "truthy url \<Longrightarrow> \<forall>u. url \<noteq> js_string u \<Longrightarrow>
     validateURL env url dbg = Inl \<lparr>err_message = assertString_message env url, err_status = None\<rparr>"
  by (cases url) (simp_all add: validateURL_def)

text \<open>
  C5 fails on the code for a request whose \<^verbatim>\<open>url\<close> field is the number 123: the value
  is truthy, so the \<^verbatim>\<open>!url\<close> guard lets it pass, \<^verbatim>\<open>validator.isURL\<close> throws, and the
  \<^verbatim>\<open>catch\<close> block of either handler responds 500 with
  \<^verbatim>\<open>{message: 'failed to fetch URL metadata'}\<close> instead of 400.
\<close>

theorem non_string_url_responds_500:
  "validateURL env (js_number 123) dbg
     = Inl \<lparr>err_message = assertString_message env (js_number 123), err_status = None\<rparr>
   \<and> meta env \<lparr>req_id = rid, body_url = js_number 123, debug = dbg\<rparr> =
        [logger_debug ''URL file import handler running'' rid,
         logger_error \<lparr>err_message = assertString_message env (js_number 123), err_status = None\<rparr>
           ''controller.url.meta.error'' rid,
         respond 500 (JObj [(''message'', JStr ''failed to fetch URL metadata'')])]
   \<and> get env \<lparr>req_id = rid, body_url = js_number 123, debug = dbg\<rparr> =
        [logger_debug ''URL file import handler running'' rid,
         logger_error \<lparr>err_message = assertString_message env (js_number 123), err_status = None\<rparr>
           ''controller.url.get.error'' rid,
         respond 500 (JObj [(''message'', JStr ''failed to fetch URL metadata'')])]"
  by (simp add: meta_def get_def validateURL_def status_or_500_def failed_to_fetch_def)

text \<open>
  C8. When the URL passes validation and \<^verbatim>\<open>getURLMeta\<close> fails with \<open>err\<close>, the metadata
  handler logs the error and responds with \<^verbatim>\<open>err.status\<close> when the error carries one (a
  status of 0, which is falsy and no HTTP status, counts as absent) and with 500 otherwise;
  the body is the fixed object \<^verbatim>\<open>{message: 'failed to fetch URL metadata'}\<close>, whatever
  the error is.
\<close>

theorem meta_failure_status:
  assumes "validateURL env (body_url req) (debug req) = Inr True"
    and "getURLMeta env (req_url req) (\<not> debug req) = Inl err"
  shows "meta env req =
           [logger_debug ''URL file import handler running'' (req_id req),
            call_getURLMeta (req_url req) (\<not> debug req),
            logger_error err ''controller.url.meta.error'' (req_id req),
            respond (case err_status err of None \<Rightarrow> 500 | Some s \<Rightarrow> if s = 0 then 500 else s)
              (JObj [(''message'', JStr ''failed to fetch URL metadata'')])]"
  using assms by (simp add: meta_def status_or_500_def failed_to_fetch_def)

theorem meta_failure_status_witness:
  "validateURL example_env (body_url (example_request ''http://example.org/x'' False))
      (debug (example_request ''http://example.org/x'' False)) = Inr True
   \<and> getURLMeta example_env (req_url (example_request ''http://example.org/x'' False))
        (\<not> debug (example_request ''http://example.org/x'' False))
      = Inl \<lparr>err_message = ''URL server responded with status: 404'', err_status = Some 404\<rparr>
   \<and> meta example_env (example_request ''http://example.org/x'' False) =
           [logger_debug ''URL file import handler running'' ''r1'',
            call_getURLMeta ''http://example.org/x'' True,
            logger_error \<lparr>err_message = ''URL server responded with status: 404'',
                           err_status = Some 404\<rparr> ''controller.url.meta.error'' ''r1'',
            respond 404 (JObj [(''message'', JStr ''failed to fetch URL metadata'')])]"
proof -
  have h1: "validateURL example_env (body_url (example_request ''http://example.org/x'' False))
      (debug (example_request ''http://example.org/x'' False)) = Inr True"
    by code_simp
  have h2: "getURLMeta example_env (req_url (example_request ''http://example.org/x'' False))
        (\<not> debug (example_request ''http://example.org/x'' False))
      = Inl \<lparr>err_message = ''URL server responded with status: 404'', err_status = Some 404\<rparr>"
    by (simp add: example_env_def example_request_def req_url_def)
  from meta_failure_status [OF h1 h2] h1 h2 show ?thesis
    by (simp add: example_request_def req_url_def)
qed

lemma block_flags_meta:
  "b \<in> set (concat (map block_flags (meta env req))) \<Longrightarrow> b = (\<not> debug req)"
  by (auto simp: meta_def split: if_splits sum.splits)

lemma block_flags_get:
  "b \<in> set (concat (map block_flags (get env req))) \<Longrightarrow> b = (\<not> debug req)"
  by (auto simp: get_def Let_def split: if_splits sum.splits)

text \<open>
  C9. Every \<^verbatim>\<open>blockLocalIPs\<close> argument that the two handlers pass to \<^verbatim>\<open>getURLMeta\<close> and
  to \<^verbatim>\<open>downloadURL\<close> (the call inside the readiness callback included) is the negation
  of the debug option, and so is the \<open>require_tld\<close> option of the validation.
\<close>

theorem blockLocalIPs_is_not_debug:
  "(\<forall>b \<in> set (concat (map block_flags (meta env req))). b = (\<not> debug req))
   \<and> (\<forall>b \<in> set (concat (map block_flags (get env req))). b = (\<not> debug req))
   \<and> require_tld (validURLOpts (debug req)) = (\<not> debug req)"
  using block_flags_meta block_flags_get by (auto simp: validURLOpts_def)

theorem blockLocalIPs_is_not_debug_witness:
  "concat (map block_flags (meta example_env (example_request ''http://example.com/a.png'' False)))
     = [True]
   \<and> concat (map block_flags (get example_env (example_request ''http://example.com/a.png'' False)))
     = [True, True]
   \<and> concat (map block_flags (get example_env (example_request ''http://localhost/a.png'' True)))
     = [False]
   \<and> True = (\<not> debug (example_request ''http://example.com/a.png'' False))
   \<and> False = (\<not> debug (example_request ''http://localhost/a.png'' True))
   \<and> require_tld (validURLOpts (debug (example_request ''http://example.com/a.png'' False)))"
proof -
  have e1: "concat (map block_flags (meta example_env (example_request ''http://example.com/a.png'' False)))
     = [True]" by code_simp
  have e2: "concat (map block_flags (get example_env (example_request ''http://example.com/a.png'' False)))
     = [True, True]" by code_simp
  have e3: "concat (map block_flags (get example_env (example_request ''http://localhost/a.png'' True)))
     = [False]" by code_simp
  have m1: "True \<in> set (concat (map block_flags
      (meta example_env (example_request ''http://example.com/a.png'' False))))"
    by (simp only: e1 list.set insertI1)
  have m3: "False \<in> set (concat (map block_flags
      (get example_env (example_request ''http://localhost/a.png'' True))))"
    by (simp only: e3 list.set insertI1)
  from blockLocalIPs_is_not_debug [of example_env "example_request ''http://example.com/a.png'' False"] m1
  have f1: "True = (\<not> debug (example_request ''http://example.com/a.png'' False))"
    by blast
  from blockLocalIPs_is_not_debug [of example_env "example_request ''http://example.com/a.png'' False"] f1
  have f2: "require_tld (validURLOpts (debug (example_request ''http://example.com/a.png'' False)))"
    by blast
  from blockLocalIPs_is_not_debug [of example_env "example_request ''http://localhost/a.png'' True"] m3
  have f3: "False = (\<not> debug (example_request ''http://localhost/a.png'' True))"
    by blast
  from e1 e2 e3 f1 f2 f3 show ?thesis by blast
qed

text \<open>
  C10. When the uploader reports an error right after its construction, the import
  handler responds with the status and body of \<^verbatim>\<open>uploader.getResponse()\<close> and returns:
  its trace has no \<^verbatim>\<open>onSocketReady\<close> registration and no download, and the hooks of the
  world are unchanged.
\<close>

theorem uploader_error_short_circuits:
  assumes "validateURL env (body_url req) (debug req) = Inr True"
    and "getURLMeta env (req_url req) (\<not> debug req) = Inr urlMeta"
    and "hasError (new_Uploader env req (meta_size urlMeta))"
  shows "get env req =
           [logger_debug ''URL file import handler running'' (req_id req),
            call_getURLMeta (req_url req) (\<not> debug req),
            logger_debug ''Instantiating uploader.'' (req_id req),
            construct_Uploader (meta_size urlMeta),
            respond (resp_status (getResponse (new_Uploader env req (meta_size urlMeta))))
                    (resp_body (getResponse (new_Uploader env req (meta_size urlMeta))))]
     \<and> hooks (step env w (import_request req)) = hooks w"
proof -
  from assms have tr: "get env req =
           [logger_debug ''URL file import handler running'' (req_id req),
            call_getURLMeta (req_url req) (\<not> debug req),
            logger_debug ''Instantiating uploader.'' (req_id req),
            construct_Uploader (meta_size urlMeta),
            respond (resp_status (getResponse (new_Uploader env req (meta_size urlMeta))))
                    (resp_body (getResponse (new_Uploader env req (meta_size urlMeta))))]"
    by (simp add: get_def Let_def)
  then show ?thesis by simp
qed

theorem uploader_error_short_circuits_witness:
  "validateURL example_env (body_url (example_request ''http://example.com/stream'' False))
      (debug (example_request ''http://example.com/stream'' False)) = Inr True
   \<and> getURLMeta example_env (req_url (example_request ''http://example.com/stream'' False))
        (\<not> debug (example_request ''http://example.com/stream'' False))
      = Inr \<lparr>meta_type = None, meta_size = None\<rparr>
   \<and> hasError (new_Uploader example_env (example_request ''http://example.com/stream'' False)
        (meta_size \<lparr>meta_type = None, meta_size = None\<rparr>))
   \<and> get example_env (example_request ''http://example.com/stream'' False) =
           [logger_debug ''URL file import handler running'' ''r1'',
            call_getURLMeta ''http://example.com/stream'' True,
            logger_debug ''Instantiating uploader.'' ''r1'',
            construct_Uploader None,
            respond 400 (JObj [(''message'', JStr ''unknown size'')])]"
proof -
  have h1: "validateURL example_env (body_url (example_request ''http://example.com/stream'' False))
      (debug (example_request ''http://example.com/stream'' False)) = Inr True"
    by code_simp
  have h2: "getURLMeta example_env (req_url (example_request ''http://example.com/stream'' False))
        (\<not> debug (example_request ''http://example.com/stream'' False))
      = Inr \<lparr>meta_type = None, meta_size = None\<rparr>"
    by (simp add: example_env_def example_request_def req_url_def)
  have h3: "hasError (new_Uploader example_env (example_request ''http://example.com/stream'' False)
        (meta_size \<lparr>meta_type = None, meta_size = None\<rparr>))"
    by (simp add: example_env_def)
  from uploader_error_short_circuits [OF h1 h2 h3] h1 h2 h3 show ?thesis
    by (simp add: example_request_def req_url_def example_env_def)
qed

section \<open>Properties of a fetch session\<close>

lemma deliver_append:
  "deliver tid l (xs @ ys) = deliver tid l xs @ deliver tid (listening_after tid l xs) ys"
  by (induction xs arbitrary: l) simp_all

lemma deliver_without_listener:
  "list_all (\<lambda>e. \<not> is_response e) es \<Longrightarrow> filter is_data (deliver tid False es) = []"
  by (induction es) (simp_all, case_tac a, simp_all)

lemma terminal_per_event:
  "length (filter is_terminal (deliver tid l es)) = length (filter raises_terminal es)"
proof (induction es arbitrary: l)
  case Nil
  show ?case by simp
next
  case (Cons e es)
  show ?case by (cases e) (simp_all add: Cons.IH)
qed

lemma quiet_after_closed: "quiet_after True cs = (filter is_data cs = [])"
  by (induction cs) simp_all

lemma no_data_without_data: "filter is_data cs = [] \<Longrightarrow> no_data_after_terminal cs"
  by (induction cs) (simp_all split: if_splits)

lemma no_data_after_terminal_quiet: "no_data_after_terminal cs = quiet_after False cs"
proof (induction cs)
  case Nil
  show ?case by simp
next
  case (Cons c cs)
  show ?case
  proof (cases "is_terminal c")
    case True
    then have "\<not> is_data c" by (cases c rule: is_terminal.cases) simp_all
    with True show ?thesis
      using no_data_without_data [of cs] by (auto simp: quiet_after_closed)
  next
    case False
    with Cons show ?thesis by simp
  qed
qed

lemma quiet_after_deliver:
  "quiet_after closed (deliver tid l es) = (\<not> late_data l closed es)"
proof (induction es arbitrary: l closed)
  case Nil
  show ?case by simp
next
  case (Cons e es)
  show ?case by (cases e) (simp_all add: Cons.IH)
qed

lemma string_of_nat_small: "n < 10 \<Longrightarrow> string_of_nat n = [char_of (48 + n)]"
  by (subst string_of_nat.simps) simp

lemma string_of_nat_large:
  "\<not> n < 10 \<Longrightarrow> string_of_nat n = string_of_nat (n div 10) @ [char_of (48 + n mod 10)]"
  by (subst string_of_nat.simps) simp

lemma decimal_value_snoc:
  "decimal_value (s @ [c]) = 10 * decimal_value s + ((of_char c :: nat) - 48)"
  by (simp add: decimal_value_def)

lemma decimal_value_string_of_nat: "decimal_value (string_of_nat n) = n"
proof (induction n rule: string_of_nat.induct)
  case (1 n)
  show ?case
  proof (cases "n < 10")
    case True
    then show ?thesis by (simp add: string_of_nat_small decimal_value_def)
  next
    case False
    have "(of_char (char_of (48 + n mod 10 :: nat)) :: nat) = 48 + n mod 10"
      by simp
    with "1.IH" [OF False] show ?thesis
      by (simp add: string_of_nat_large [OF False] decimal_value_snoc)
  qed
qed

lemma digits_string_of_nat: "list_all is_digit (string_of_nat n)"
proof (induction n rule: string_of_nat.induct)
  case (1 n)
  show ?case
  proof (cases "n < 10")
    case True
    then show ?thesis by (simp add: string_of_nat_small is_digit_def)
  next
    case False
    have "is_digit (char_of (48 + n mod 10 :: nat))"
      by (simp add: is_digit_def)
    with "1.IH" [OF False] show ?thesis
      by (simp add: string_of_nat_large [OF False])
  qed
qed

text \<open>
  C1, amended. In every fetch session the callback receives one terminal event for each
  \<^verbatim>\<open>'end'\<close>, each \<^verbatim>\<open>'error'\<close> and each response with a status of 300 or more that the
  transport raises, so at most one exactly when the transport raises at most one of
  these; and no data chunk is delivered after a terminal event exactly when the transport
  raises no \<^verbatim>\<open>'data'\<close> on a response with a status below 300 after one of these three
  events.
\<close>

theorem downloadURL_terminal_events:
  assumes "downloadURL env url blockLocalIPs traceId events = Inr (opts, out)"
  shows "length (filter is_terminal out) = length (filter raises_terminal events)
     \<and> no_data_after_terminal out = (\<not> late_data False False events)"
proof -
  from assms have out: "out = deliver traceId False events"
    by (auto simp: downloadURL_def split: sum.splits)
  show ?thesis
    by (simp only: out terminal_per_event no_data_after_terminal_quiet quiet_after_deliver)
qed

text \<open>
  C4. When the response of a fetch arrives with a status of 300 or more, \<open>downloadURL\<close>
  calls the callback once with an error whose message ends in the decimal numeral of that
  status (digits only, and reading them back gives the status), and none of the
  \<^verbatim>\<open>'data'\<close> events of that response reaches the callback.
\<close>

theorem status_300_fails_without_data:
  assumes "downloadURL env url blockLocalIPs traceId (before @ ev_response statusCode # after)
             = Inr (opts, out)"
    and "statusCode \<ge> 300"
    and "list_all (\<lambda>e. \<not> is_response e) after"
  shows "out = deliver traceId False before
           @ onDataChunk (Some \<lparr>err_message = ''URL server responded with status: ''
                                   @ string_of_nat statusCode, err_status = None\<rparr>) None
           # deliver traceId False after
     \<and> filter is_data (deliver traceId False after) = []
     \<and> list_all is_digit (string_of_nat statusCode)
     \<and> decimal_value (string_of_nat statusCode) = statusCode"
proof -
  from assms(1) have "out = deliver traceId False (before @ ev_response statusCode # after)"
    by (auto simp: downloadURL_def split: sum.splits)
  with assms(2) have "out = deliver traceId False before
      @ onDataChunk (Some (status_error statusCode)) None # deliver traceId False after"
    by (simp add: deliver_append)
  moreover from assms(3) have "filter is_data (deliver traceId False after) = []"
    by (rule deliver_without_listener)
  ultimately show ?thesis
    by (simp add: status_error_def digits_string_of_nat decimal_value_string_of_nat)
qed

theorem downloadURL_terminal_events_witness:
  "downloadURL example_env ''http://example.com/a.png'' True ''r1''
        [ev_response 200, ev_data ''ab'', ev_data ''cd'', ev_end]
      = Inr (\<lparr>uri = ''http://example.com/a.png'', req_method = ''GET'',
               followRedirect = getRedirectEvaluator ''http://example.com/a.png'' True,
               agentClass = getProtectedHttpAgent ''http:'' True\<rparr>,
             [onDataChunk None (Some ''ab''), onDataChunk None (Some ''cd''), onDataChunk None None])
   \<and> length (filter is_terminal
        [onDataChunk None (Some ''ab''), onDataChunk None (Some ''cd''), onDataChunk None None]) = 1
   \<and> no_data_after_terminal
        [onDataChunk None (Some ''ab''), onDataChunk None (Some ''cd''), onDataChunk None None]
   \<and> downloadURL example_env ''http://example.com/a.png'' True ''r1''
        [ev_response 404, ev_data ''Not Found'', ev_end]
      = Inr (\<lparr>uri = ''http://example.com/a.png'', req_method = ''GET'',
               followRedirect = getRedirectEvaluator ''http://example.com/a.png'' True,
               agentClass = getProtectedHttpAgent ''http:'' True\<rparr>,
             [onDataChunk (Some \<lparr>err_message = ''URL server responded with status: 404'',
                                err_status = None\<rparr>) None,
              onDataChunk None None])
   \<and> length (filter is_terminal
        [onDataChunk (Some \<lparr>err_message = ''URL server responded with status: 404'',
                           err_status = None\<rparr>) None,
         onDataChunk None None]) = 2
   \<and> no_data_after_terminal
        [onDataChunk (Some \<lparr>err_message = ''URL server responded with status: 404'',
                           err_status = None\<rparr>) None,
         onDataChunk None None]"
proof -
  have r1: "downloadURL example_env ''http://example.com/a.png'' True ''r1''
        [ev_response 200, ev_data ''ab'', ev_data ''cd'', ev_end]
      = Inr (\<lparr>uri = ''http://example.com/a.png'', req_method = ''GET'',
               followRedirect = getRedirectEvaluator ''http://example.com/a.png'' True,
               agentClass = getProtectedHttpAgent ''http:'' True\<rparr>,
             [onDataChunk None (Some ''ab''), onDataChunk None (Some ''cd''), onDataChunk None None])"
    by code_simp
  have r2: "downloadURL example_env ''http://example.com/a.png'' True ''r1''
        [ev_response 404, ev_data ''Not Found'', ev_end]
      = Inr (\<lparr>uri = ''http://example.com/a.png'', req_method = ''GET'',
               followRedirect = getRedirectEvaluator ''http://example.com/a.png'' True,
               agentClass = getProtectedHttpAgent ''http:'' True\<rparr>,
             [onDataChunk (Some \<lparr>err_message = ''URL server responded with status: 404'',
                                err_status = None\<rparr>) None,
              onDataChunk None None])"
    by code_simp
  have t1: "length (filter raises_terminal [ev_response 200, ev_data ''ab'', ev_data ''cd'', ev_end]) = 1"
    and q1: "\<not> late_data False False [ev_response 200, ev_data ''ab'', ev_data ''cd'', ev_end]"
    and t2: "length (filter raises_terminal [ev_response 404, ev_data ''Not Found'', ev_end]) = 2"
    and q2: "\<not> late_data False False [ev_response 404, ev_data ''Not Found'', ev_end]"
    by simp_all
  from downloadURL_terminal_events [OF r1] downloadURL_terminal_events [OF r2] r1 r2 t1 q1 t2 q2
  show ?thesis by (simp only: simp_thms)
qed

text \<open>
  C1, as stated, fails: \<open>downloadURL\<close> keeps no record of a terminal event. For a response
  with status 404 the response handler reports an error, and the unconditional
  \<^verbatim>\<open>'end'\<close> handler then reports the end of the stream as well.
\<close>

theorem downloadURL_terminal_twice:
  "downloadURL example_env ''http://example.com/a.png'' True ''r1'' [ev_response 404, ev_end]
     = Inr (\<lparr>uri = ''http://example.com/a.png'', req_method = ''GET'',
              followRedirect = getRedirectEvaluator ''http://example.com/a.png'' True,
              agentClass = getProtectedHttpAgent ''http:'' True\<rparr>,
            [onDataChunk (Some \<lparr>err_message = ''URL server responded with status: 404'',
                               err_status = None\<rparr>) None,
             onDataChunk None None])
   \<and> \<not> length (filter is_terminal
          [onDataChunk (Some \<lparr>err_message = ''URL server responded with status: 404'',
                              err_status = None\<rparr>) None,
           onDataChunk None None]) \<le> 1"
proof -
  have "downloadURL example_env ''http://example.com/a.png'' True ''r1'' [ev_response 404, ev_end]
     = Inr (\<lparr>uri = ''http://example.com/a.png'', req_method = ''GET'',
              followRedirect = getRedirectEvaluator ''http://example.com/a.png'' True,
              agentClass = getProtectedHttpAgent ''http:'' True\<rparr>,
            [onDataChunk (Some \<lparr>err_message = ''URL server responded with status: 404'',
                               err_status = None\<rparr>) None,
             onDataChunk None None])"
    by code_simp
  then show ?thesis by simp
qed

text \<open>
  C3. Whenever \<open>downloadURL\<close> hands options to the transport, they carry the redirect
  evaluator built from the original URL and the \<^verbatim>\<open>blockLocalIPs\<close> flag (the
  \<^verbatim>\<open>followRedirect\<close> hook, which the transport consults on each redirect) and the
  protected agent built from the protocol of the URL and the same flag (the
  \<^verbatim>\<open>agentClass\<close> of the connection). There is no other way the fetch is started.
\<close>

theorem downloadURL_installs_protections:
  assumes "downloadURL env url blockLocalIPs traceId events = Inr (opts, out)"
  shows "followRedirect opts = getRedirectEvaluator url blockLocalIPs
     \<and> (\<exists>protocol. URL_protocol env url = Some protocol
           \<and> agentClass opts = getProtectedHttpAgent protocol blockLocalIPs)
     \<and> uri opts = url \<and> req_method opts = ''GET''"
  using assms by (auto simp: downloadURL_def download_opts_def split: option.splits sum.splits)

theorem downloadURL_installs_protections_witness:
  "downloadURL example_env ''https://example.com/a.png'' True ''r1'' [ev_response 200, ev_end]
     = Inr (\<lparr>uri = ''https://example.com/a.png'', req_method = ''GET'',
              followRedirect = getRedirectEvaluator ''https://example.com/a.png'' True,
              agentClass = getProtectedHttpAgent ''https:'' True\<rparr>,
            [onDataChunk None None])
   \<and> URL_protocol example_env ''https://example.com/a.png'' = Some ''https:''
   \<and> followRedirect \<lparr>uri = ''https://example.com/a.png'', req_method = ''GET'',
              followRedirect = getRedirectEvaluator ''https://example.com/a.png'' True,
              agentClass = getProtectedHttpAgent ''https:'' True\<rparr>
       = getRedirectEvaluator ''https://example.com/a.png'' True
   \<and> (\<exists>protocol. URL_protocol example_env ''https://example.com/a.png'' = Some protocol
        \<and> agentClass \<lparr>uri = ''https://example.com/a.png'', req_method = ''GET'',
              followRedirect = getRedirectEvaluator ''https://example.com/a.png'' True,
              agentClass = getProtectedHttpAgent ''https:'' True\<rparr>
            = getProtectedHttpAgent protocol True)"
proof -
  have h: "downloadURL example_env ''https://example.com/a.png'' True ''r1'' [ev_response 200, ev_end]
     = Inr (\<lparr>uri = ''https://example.com/a.png'', req_method = ''GET'',
              followRedirect = getRedirectEvaluator ''https://example.com/a.png'' True,
              agentClass = getProtectedHttpAgent ''https:'' True\<rparr>,
            [onDataChunk None None])"
    by code_simp
  have p: "URL_protocol example_env ''https://example.com/a.png'' = Some ''https:''"
    by code_simp
  from downloadURL_installs_protections [OF h] h p show ?thesis by blast
qed

theorem status_300_fails_without_data_witness:
  "downloadURL example_env ''http://example.com/a.png'' True ''r1''
       ([] @ ev_response 404 # [ev_data ''Not Found'', ev_end])
     = Inr (\<lparr>uri = ''http://example.com/a.png'', req_method = ''GET'',
              followRedirect = getRedirectEvaluator ''http://example.com/a.png'' True,
              agentClass = getProtectedHttpAgent ''http:'' True\<rparr>,
            [onDataChunk (Some \<lparr>err_message = ''URL server responded with status: 404'',
                               err_status = None\<rparr>) None,
             onDataChunk None None])
   \<and> (404::nat) \<ge> 300
   \<and> list_all (\<lambda>e. \<not> is_response e) [ev_data ''Not Found'', ev_end]
   \<and> string_of_nat 404 = ''404''
   \<and> list_all is_digit (string_of_nat 404)
   \<and> decimal_value (string_of_nat 404) = 404
   \<and> filter is_data (deliver ''r1'' False [ev_data ''Not Found'', ev_end]) = []"
proof -
  have h1: "downloadURL example_env ''http://example.com/a.png'' True ''r1''
       ([] @ ev_response 404 # [ev_data ''Not Found'', ev_end])
     = Inr (\<lparr>uri = ''http://example.com/a.png'', req_method = ''GET'',
              followRedirect = getRedirectEvaluator ''http://example.com/a.png'' True,
              agentClass = getProtectedHttpAgent ''http:'' True\<rparr>,
            [onDataChunk (Some \<lparr>err_message = ''URL server responded with status: 404'',
                               err_status = None\<rparr>) None,
             onDataChunk None None])"
    by code_simp
  have h2: "(404::nat) \<ge> 300" by simp
  have h3: "list_all (\<lambda>e. \<not> is_response e) [ev_data ''Not Found'', ev_end]" by simp
  have s: "string_of_nat 404 = ''404''" by code_simp
  from status_300_fails_without_data [OF h1 h2 h3] h1 h2 h3 s show ?thesis by blast
qed

section \<open>The download waits for readiness\<close>

lemma history_perform:
  "history (perform rid w a) = history w @ [performed rid a]"
  by (cases a) simp_all

lemma hooks_perform:
  "hooks (perform rid w a) r = Some cb \<Longrightarrow>
     hooks w r = Some cb \<or> (r = rid \<and> a = onSocketReady cb)"
  by (cases a) (simp_all split: if_splits)

lemma history_foldl_perform:
  "history (foldl (perform rid) w as) = history w @ map (performed rid) as"
  by (induction as arbitrary: w) (simp_all add: history_perform)

lemma hooks_foldl_perform:
  "hooks (foldl (perform rid) w as) r = Some cb \<Longrightarrow>
     hooks w r = Some cb \<or> (r = rid \<and> onSocketReady cb \<in> set as)"
proof (induction as arbitrary: w)
  case Nil
  then show ?case by simp
next
  case (Cons a as)
  from Cons.IH [of "perform rid w a"] Cons.prems
  have "hooks (perform rid w a) r = Some cb \<or> (r = rid \<and> onSocketReady cb \<in> set as)"
    by simp
  then show ?case using hooks_perform [of rid w a r cb] by auto
qed

lemma get_no_download: "call_downloadURL url b tid \<notin> set (get env req)"
  by (simp add: get_def Let_def split: sum.splits if_splits)

lemma downloads_released_quiet:
  assumes "downloads_released h" and "\<forall>rid url b tid. performed rid (call_downloadURL url b tid) \<notin> set new"
  shows "downloads_released (h @ new)"
  unfolding downloads_released_def
proof (intro allI impI)
  fix pre rid url b tid post
  assume eq: "h @ new = pre @ performed rid (call_downloadURL url b tid) # post"
  have "\<exists>post'. h = pre @ performed rid (call_downloadURL url b tid) # post'"
  proof -
    from eq consider (left) us where "h = pre @ us" "us @ new = performed rid (call_downloadURL url b tid) # post"
      | (right) us where "h @ us = pre" "new = us @ performed rid (call_downloadURL url b tid) # post"
      by (auto simp: append_eq_append_conv2)
    then show ?thesis
    proof cases
      case left
      show ?thesis
      proof (cases us)
        case Nil
        with left have "performed rid (call_downloadURL url b tid) \<in> set new" by simp
        with assms(2) show ?thesis by blast
      next
        case (Cons u us')
        with left show ?thesis by auto
      qed
    next
      case right
      then have "performed rid (call_downloadURL url b tid) \<in> set new" by simp
      with assms(2) show ?thesis by blast
    qed
  qed
  with assms(1) show "\<exists>before callback after. pre = before @ ready rid # after
           \<and> performed rid (onSocketReady callback) \<in> set before"
    unfolding downloads_released_def by blast
qed

lemma downloads_released_callback:
  assumes "downloads_released h" and "performed r (onSocketReady cb) \<in> set h"
  shows "downloads_released (h @ ready r # map (performed r) as)"
  unfolding downloads_released_def
proof (intro allI impI)
  fix pre rid url b tid post
  assume eq: "h @ ready r # map (performed r) as = pre @ performed rid (call_downloadURL url b tid) # post"
  from eq consider (left) us where "h = pre @ us" "us @ ready r # map (performed r) as = performed rid (call_downloadURL url b tid) # post"
    | (right) us where "h @ us = pre" "ready r # map (performed r) as = us @ performed rid (call_downloadURL url b tid) # post"
    by (auto simp: append_eq_append_conv2)
  then show "\<exists>before callback after. pre = before @ ready rid # after
           \<and> performed rid (onSocketReady callback) \<in> set before"
  proof cases
    case left
    then obtain us' where "us = performed rid (call_downloadURL url b tid) # us'"
      by (cases us) auto
    with left have "h = pre @ performed rid (call_downloadURL url b tid) # us'" by simp
    with assms(1) show ?thesis unfolding downloads_released_def by blast
  next
    case right
    then obtain us' where us: "us = ready r # us'"
      and rest: "map (performed r) as = us' @ performed rid (call_downloadURL url b tid) # post"
      by (cases us) auto
    from rest have "performed rid (call_downloadURL url b tid) \<in> set (map (performed r) as)"
      by simp
    then have "rid = r" by auto
    with right us assms(2) show ?thesis by auto
  qed
qed

lemma step_invariant:
  assumes "registered_before w" and "downloads_released (history w)"
  shows "registered_before (step env w s) \<and> downloads_released (history (step env w s))"
proof (cases s)
  case (import_request req)
  have "registered_before (step env w s)"
    unfolding registered_before_def
  proof (intro allI impI)
    fix rid cb
    assume "hooks (step env w s) rid = Some cb"
    with import_request hooks_foldl_perform [of "req_id req" w "get env req" rid cb]
    have "hooks w rid = Some cb \<or> (rid = req_id req \<and> onSocketReady cb \<in> set (get env req))"
      by simp
    with assms(1) show "performed rid (onSocketReady cb) \<in> set (history (step env w s))"
      by (auto simp: import_request history_foldl_perform registered_before_def)
  qed
  moreover have "downloads_released (history (step env w s))"
    using downloads_released_quiet [OF assms(2), of "map (performed (req_id req)) (get env req)"]
      get_no_download [of _ _ _ env req]
    by (auto simp: import_request history_foldl_perform)
  ultimately show ?thesis ..
next
  case (socket_ready rid)
  show ?thesis
  proof (cases "hooks w rid")
    case None
    then have st: "step env w s = w\<lparr>history := history w @ [ready rid]\<rparr>"
      by (simp add: socket_ready)
    have "downloads_released (history w @ [ready rid])"
      using downloads_released_quiet [OF assms(2), of "[ready rid]"] by simp
    with assms(1) show ?thesis by (simp add: st registered_before_def)
  next
    case (Some cb)
    let ?w' = "w\<lparr>hooks := (hooks w)(rid := None), history := history w @ [ready rid]\<rparr>"
    from Some have st: "step env w s = foldl (perform rid) ?w' cb"
      by (simp add: socket_ready)
    from Some assms(1) have reg: "performed rid (onSocketReady cb) \<in> set (history w)"
      by (simp add: registered_before_def)
    have "registered_before (step env w s)"
      unfolding registered_before_def
    proof (intro allI impI)
      fix r c
      assume "hooks (step env w s) r = Some c"
      with st hooks_foldl_perform [of rid ?w' cb r c]
      have "hooks ?w' r = Some c \<or> (r = rid \<and> onSocketReady c \<in> set cb)" by simp
      then show "performed r (onSocketReady c) \<in> set (history (step env w s))"
      proof
        assume "hooks ?w' r = Some c"
        then have "hooks w r = Some c" by (simp split: if_splits)
        with assms(1) show ?thesis by (simp add: st history_foldl_perform registered_before_def)
      next
        assume "r = rid \<and> onSocketReady c \<in> set cb"
        then show ?thesis by (simp add: st history_foldl_perform)
      qed
    qed
    moreover have "downloads_released (history (step env w s))"
      using downloads_released_callback [OF assms(2) reg, of cb]
      by (simp add: st history_foldl_perform)
    ultimately show ?thesis ..
  qed
qed

lemma run_invariant:
  "registered_before (run env signals) \<and> downloads_released (history (run env signals))"
proof (induction signals rule: rev_induct)
  case Nil
  show ?case by (simp add: run_def registered_before_def downloads_released_def)
next
  case (snoc s signals)
  then show ?case using step_invariant [of "run env signals" env s] by (simp add: run_def)
qed

text \<open>
  C2. The import handler never calls \<^verbatim>\<open>downloadURL\<close> itself; in every run of the world,
  a call of \<^verbatim>\<open>downloadURL\<close> for a request is preceded by a readiness signal of that
  request's uploader, which in turn follows the registration of the callback with
  \<^verbatim>\<open>onSocketReady\<close>.
\<close>

theorem download_only_after_readiness:
  assumes "history (run env signals) = pre @ performed rid (call_downloadURL url b tid) # post"
  shows "call_downloadURL url b tid \<notin> set (get env req)
     \<and> (\<exists>before callback after. pre = before @ ready rid # after
           \<and> performed rid (onSocketReady callback) \<in> set before)"
  using assms run_invariant [of env signals] get_no_download [of url b tid env req]
  unfolding downloads_released_def by blast

theorem download_only_after_readiness_witness:
  "history (run example_env
       [socket_ready ''r1'', import_request (example_request ''http://example.com/a.png'' False),
        socket_ready ''r1'', socket_ready ''r1''])
     = [ready ''r1'',
        performed ''r1'' (logger_debug ''URL file import handler running'' ''r1''),
        performed ''r1'' (call_getURLMeta ''http://example.com/a.png'' True),
        performed ''r1'' (logger_debug ''Instantiating uploader.'' ''r1''),
        performed ''r1'' (construct_Uploader (Some 1024)),
        performed ''r1'' (logger_debug
          ''Waiting for socket connection before beginning remote download.'' ''r1''),
        performed ''r1'' (onSocketReady
          [logger_debug ''Socket connection received. Starting remote download.'' ''r1'',
           call_downloadURL ''http://example.com/a.png'' True ''r1'']),
        performed ''r1'' (respond 200 (JObj [(''token'', JStr ''t1'')])),
        ready ''r1'',
        performed ''r1'' (logger_debug ''Socket connection received. Starting remote download.''
          ''r1'')]
       @ performed ''r1'' (call_downloadURL ''http://example.com/a.png'' True ''r1'')
       # [ready ''r1'']
   \<and> (\<exists>before callback after.
        [ready ''r1'',
         performed ''r1'' (logger_debug ''URL file import handler running'' ''r1''),
         performed ''r1'' (call_getURLMeta ''http://example.com/a.png'' True),
         performed ''r1'' (logger_debug ''Instantiating uploader.'' ''r1''),
         performed ''r1'' (construct_Uploader (Some 1024)),
         performed ''r1'' (logger_debug
           ''Waiting for socket connection before beginning remote download.'' ''r1''),
         performed ''r1'' (onSocketReady
           [logger_debug ''Socket connection received. Starting remote download.'' ''r1'',
            call_downloadURL ''http://example.com/a.png'' True ''r1'']),
         performed ''r1'' (respond 200 (JObj [(''token'', JStr ''t1'')])),
         ready ''r1'',
         performed ''r1'' (logger_debug ''Socket connection received. Starting remote download.''
           ''r1'')]
        = before @ ready ''r1'' # after
        \<and> performed ''r1'' (onSocketReady callback) \<in> set before)"
proof -
  have h: "history (run example_env
       [socket_ready ''r1'', import_request (example_request ''http://example.com/a.png'' False),
        socket_ready ''r1'', socket_ready ''r1''])
     = [ready ''r1'',
        performed ''r1'' (logger_debug ''URL file import handler running'' ''r1''),
        performed ''r1'' (call_getURLMeta ''http://example.com/a.png'' True),
        performed ''r1'' (logger_debug ''Instantiating uploader.'' ''r1''),
        performed ''r1'' (construct_Uploader (Some 1024)),
        performed ''r1'' (logger_debug
          ''Waiting for socket connection before beginning remote download.'' ''r1''),
        performed ''r1'' (onSocketReady
          [logger_debug ''Socket connection received. Starting remote download.'' ''r1'',
           call_downloadURL ''http://example.com/a.png'' True ''r1'']),
        performed ''r1'' (respond 200 (JObj [(''token'', JStr ''t1'')])),
        ready ''r1'',
        performed ''r1'' (logger_debug ''Socket connection received. Starting remote download.''
          ''r1'')]
       @ performed ''r1'' (call_downloadURL ''http://example.com/a.png'' True ''r1'')
       # [ready ''r1'']"
    by code_simp
  from download_only_after_readiness [OF h] h show ?thesis by blast
qed

end
